theory Spec2Isabelle
  imports Complex_Main
begin

section \<open>Validation selectors of the show viewer\<close>

text \<open>
  The development embeds the selectors of the validation feature
  (\<^verbatim>\<open>src/unnamed/part_000\<close>). JavaScript numbers are taken as real numbers: rounding,
  NaN and the infinities of IEEE doubles are outside the model. A selector built with
  \<^verbatim>\<open>createSelector(in1, ..., inN, f)\<close> is the composition of its input selectors with
  its result function \<^verbatim>\<open>f\<close>; the result function is embedded under the selector's name
  with the suffix \<^verbatim>\<open>_resultFunc\<close> (the name reselect gives it), the memoisation is not
  modelled.
\<close>

subsection \<open>Values, objects and the store\<close>

text \<open>
  The JavaScript values that occur in a settings object or in an array of results.
  \<open>Undefined\<close> is also what reading an absent property gives, and what a slot of
  \<^verbatim>\<open>new Array(n)\<close> reads as before it is assigned.
\<close>

datatype jsval = Undefined | Null | Num real | Str string | Bool bool

type_synonym jsobj = "string \<rightharpoonup> jsval"

definition getProp :: "jsobj \<Rightarrow> string \<Rightarrow> jsval" where
  "getProp obj k = (case obj k of None \<Rightarrow> Undefined | Some v \<Rightarrow> v)"

record point =
  coord_x :: real
  coord_y :: real
  coord_z :: real

text \<open>
  A trajectory player is used through two methods only, taken here as total functions of
  the time with no effect; the class itself is not among the sources. The second argument
  of the calls, a fresh object \<^verbatim>\<open>{ t: time }\<close> that the player fills and returns, is not
  shared between calls and is left out.
\<close>

record player =
  getPositionAt :: "real \<Rightarrow> point"
  getVelocityAt :: "real \<Rightarrow> point"

text \<open>
  The input selectors \<^verbatim>\<open>getShowDuration\<close>, \<^verbatim>\<open>getShowEnvironmentType\<close> and
  \<^verbatim>\<open>getTrajectoryPlayers\<close> live in another module; they are the projections of the
  store here, next to the raw validation settings found at
  \<^verbatim>\<open>show.data.settings.validation\<close> (\<open>None\<close> when that path holds no object) and
  the selection of the validation panel, which none of the sampled sequences reads.
\<close>

record state =
  show_data_settings_validation :: "jsobj option"
  getShowEnvironmentType :: string
  getShowDuration :: real
  getTrajectoryPlayers :: "player list"
  validation_selection :: "string list"

subsection \<open>Validation settings\<close>

text \<open>
  \<^verbatim>\<open>DEFAULT_VALIDATION_SETTINGS\<close> is a table of another module, from environment type to
  default settings; it is a parameter. The spread of
  \<^verbatim>\<open>DEFAULT_VALIDATION_SETTINGS[type] || DEFAULT_VALIDATION_SETTINGS.outdoor\<close> copies the
  entry of the type, else the one of \<^verbatim>\<open>outdoor\<close>, else nothing. The properties an
  object inherits from its prototype are not modelled: an environment type is not the name
  of one.
\<close>

definition defaultSettingsFor :: "(string \<rightharpoonup> jsobj) \<Rightarrow> string \<Rightarrow> jsobj" where
  "defaultSettingsFor DEFAULT_VALIDATION_SETTINGS type =
     (case DEFAULT_VALIDATION_SETTINGS type of
        Some s \<Rightarrow> s
      | None \<Rightarrow>
          (case DEFAULT_VALIDATION_SETTINGS ''outdoor'' of
             Some s \<Rightarrow> s
           | None \<Rightarrow> Map.empty))"

text \<open>
  The result function of \<^verbatim>\<open>getValidationSettings\<close>. The four assignments of the legacy
  branch store whatever the reads give, \<open>Undefined\<close> included;
  \<^verbatim>\<open>Object.assign(settings, validation)\<close> copies every own property of
  \<^verbatim>\<open>validation\<close> and does nothing when there is no object. The raw settings are an
  object whenever they are present.
\<close>

definition getValidationSettings_resultFunc ::
  "(string \<rightharpoonup> jsobj) \<Rightarrow> jsobj option \<Rightarrow> string \<Rightarrow> jsobj" where
  "getValidationSettings_resultFunc DEFAULT_VALIDATION_SETTINGS validation type =
     (let settings = defaultSettingsFor DEFAULT_VALIDATION_SETTINGS type in
      case validation of
        None \<Rightarrow> settings
      | Some v \<Rightarrow>
          if getProp v ''max_altitude'' \<noteq> Undefined then
            settings
              (''maxAltitude'' \<mapsto> getProp v ''max_altitude'',
               ''maxVelocityXY'' \<mapsto> getProp v ''max_velocity_xy'',
               ''maxVelocityZ'' \<mapsto> getProp v ''max_velocity_z'',
               ''minDistance'' \<mapsto> getProp v ''min_distance'')
          else settings ++ v)"

definition getValidationSettings :: "(string \<rightharpoonup> jsobj) \<Rightarrow> state \<Rightarrow> jsobj" where
  "getValidationSettings DEFAULT_VALIDATION_SETTINGS st =
     getValidationSettings_resultFunc DEFAULT_VALIDATION_SETTINGS
       (show_data_settings_validation st) (getShowEnvironmentType st)"

definition getAltitudeWarningThreshold :: "(string \<rightharpoonup> jsobj) \<Rightarrow> state \<Rightarrow> jsval" where
  "getAltitudeWarningThreshold D st = getProp (getValidationSettings D st) ''maxAltitude''"

definition getHorizontalVelocityThreshold :: "(string \<rightharpoonup> jsobj) \<Rightarrow> state \<Rightarrow> jsval" where
  "getHorizontalVelocityThreshold D st = getProp (getValidationSettings D st) ''maxVelocityXY''"

definition getProximityWarningThreshold :: "(string \<rightharpoonup> jsobj) \<Rightarrow> state \<Rightarrow> jsval" where
  "getProximityWarningThreshold D st = getProp (getValidationSettings D st) ''minDistance''"

definition getVerticalVelocityThreshold :: "(string \<rightharpoonup> jsobj) \<Rightarrow> state \<Rightarrow> jsval" where
  "getVerticalVelocityThreshold D st = getProp (getValidationSettings D st) ''maxVelocityZ''"

text \<open>The legacy settings object of the specification's example.\<close>

definition legacyExample :: jsobj where
  "legacyExample =
     [''max_altitude'' \<mapsto> Num 50, ''max_velocity_xy'' \<mapsto> Num 5,
      ''max_velocity_z'' \<mapsto> Num 3, ''min_distance'' \<mapsto> Num 2]"

subsection \<open>The sample grid\<close>

text \<open>
  \<^verbatim>\<open>range(end)\<close> of lodash with one argument starts at 0 and steps by 1 towards a
  positive end and by -1 otherwise; its length is \<^verbatim>\<open>max(ceil(end / step), 0)\<close>. The
  argument is the integer \<^verbatim>\<open>Math.ceil\<close> returned, so the division by the step is exact.
\<close>

definition lodash_range :: "int \<Rightarrow> int list" where
  "lodash_range end =
     (let step = (if 0 < end then 1 else - 1);
          len = nat (max (end div step) 0)
      in map (\<lambda>i. 0 + int i * step) [0..<len])"


text \<open>
  \<^verbatim>\<open>SAMPLES_PER_SECOND\<close> is a constant of another module and a parameter here. The
  division \<^verbatim>\<open>x / SAMPLES_PER_SECOND\<close> is only evaluated on the elements of the range,
  and the range is empty when the constant is 0.
\<close>

definition getSampledTimeInstants_resultFunc :: "real \<Rightarrow> real \<Rightarrow> real list" where
  "getSampledTimeInstants_resultFunc SAMPLES_PER_SECOND duration =
     (let numberSamples = \<lceil>duration * SAMPLES_PER_SECOND\<rceil>;
          result = map (\<lambda>x. real_of_int x / SAMPLES_PER_SECOND) (lodash_range numberSamples)
      in if length result > 0 \<and> last result < duration
         then result @ [duration] else result)"

definition getSampledTimeInstants :: "real \<Rightarrow> state \<Rightarrow> real list" where
  "getSampledTimeInstants SAMPLES_PER_SECOND st =
     getSampledTimeInstants_resultFunc SAMPLES_PER_SECOND (getShowDuration st)"

subsection \<open>Sampled positions, velocities and the sequences derived from them\<close>

definition getSampledPositionsForDrones_resultFunc ::
  "player list \<Rightarrow> real list \<Rightarrow> point list list" where
  "getSampledPositionsForDrones_resultFunc players samples =
     map (\<lambda>player. map (\<lambda>time. getPositionAt player time) samples) players"

definition getSampledPositionsForDrones :: "real \<Rightarrow> state \<Rightarrow> point list list" where
  "getSampledPositionsForDrones SAMPLES_PER_SECOND st =
     getSampledPositionsForDrones_resultFunc (getTrajectoryPlayers st)
       (getSampledTimeInstants SAMPLES_PER_SECOND st)"

definition getSampledVelocitiesForDrones_resultFunc ::
  "player list \<Rightarrow> real list \<Rightarrow> point list list" where
  "getSampledVelocitiesForDrones_resultFunc players samples =
     map (\<lambda>player. map (\<lambda>time. getVelocityAt player time) samples) players"

definition getSampledVelocitiesForDrones :: "real \<Rightarrow> state \<Rightarrow> point list list" where
  "getSampledVelocitiesForDrones SAMPLES_PER_SECOND st =
     getSampledVelocitiesForDrones_resultFunc (getTrajectoryPlayers st)
       (getSampledTimeInstants SAMPLES_PER_SECOND st)"

text \<open>\<^verbatim>\<open>Math.hypot\<close>: the square root of the sum of the squares of its arguments.\<close>

definition Math_hypot :: "real list \<Rightarrow> real" where
  "Math_hypot vs = sqrt (sum_list (map (\<lambda>v. v\<^sup>2) vs))"

definition getSampledAltitudesForDrones_resultFunc :: "point list list \<Rightarrow> real list list" where
  "getSampledAltitudesForDrones_resultFunc positionsByDrones =
     map (\<lambda>positions. map (\<lambda>coord. coord_z coord) positions) positionsByDrones"

definition getSampledAltitudesForDrones :: "real \<Rightarrow> state \<Rightarrow> real list list" where
  "getSampledAltitudesForDrones SAMPLES_PER_SECOND st =
     getSampledAltitudesForDrones_resultFunc (getSampledPositionsForDrones SAMPLES_PER_SECOND st)"

definition getSampledHorizontalVelocitiesForDrones_resultFunc ::
  "point list list \<Rightarrow> real list list" where
  "getSampledHorizontalVelocitiesForDrones_resultFunc velocitiesByDrones =
     map (\<lambda>velocities. map (\<lambda>coord. Math_hypot [coord_x coord, coord_y coord]) velocities)
       velocitiesByDrones"

definition getSampledHorizontalVelocitiesForDrones :: "real \<Rightarrow> state \<Rightarrow> real list list" where
  "getSampledHorizontalVelocitiesForDrones SAMPLES_PER_SECOND st =
     getSampledHorizontalVelocitiesForDrones_resultFunc
       (getSampledVelocitiesForDrones SAMPLES_PER_SECOND st)"

definition getSampledVerticalVelocitiesForDrones_resultFunc ::
  "point list list \<Rightarrow> real list list" where
  "getSampledVerticalVelocitiesForDrones_resultFunc velocitiesByDrones =
     map (\<lambda>velocities. map (\<lambda>coord. coord_z coord) velocities) velocitiesByDrones"

definition getSampledVerticalVelocitiesForDrones :: "real \<Rightarrow> state \<Rightarrow> real list list" where
  "getSampledVerticalVelocitiesForDrones SAMPLES_PER_SECOND st =
     getSampledVerticalVelocitiesForDrones_resultFunc
       (getSampledVelocitiesForDrones SAMPLES_PER_SECOND st)"

subsection \<open>The closest pair of a frame\<close>

datatype error = TypeError

text \<open>
  The distance the selector computes from a pair: \<^verbatim>\<open>Math.hypot\<close> of the differences of
  the coordinates of \<^verbatim>\<open>closestPair[0]\<close> and \<^verbatim>\<open>closestPair[1]\<close>.
\<close>

definition pairDistance :: "point \<times> point \<Rightarrow> real" where
  "pairDistance pr =
     Math_hypot [coord_x (fst pr) - coord_x (snd pr),
                 coord_y (fst pr) - coord_y (snd pr),
                 coord_z (fst pr) - coord_z (snd pr)]"

text \<open>
  Modelled from the spec: \<^verbatim>\<open>getClosestPair\<close>, the default export of the module
  \<^verbatim>\<open>closest-pair\<close>, is not among the sources. The specification gives its contract:
  for a frame of 0 or more points, coincident ones allowed, it returns the pair whose
  Euclidean distance is minimal, "no pair" when fewer than two points are present, exactly
  and not approximately, and among pairs at the same distance a fixed one; a brute-force
  pairwise scan is an accepted strategy and any other strategy must return the same. The
  model is that scan. \<open>allPairs\<close> lists the pairs it visits, an earlier point of the frame
  first, in the order of two nested loops.
\<close>

fun allPairs :: "'a list \<Rightarrow> ('a \<times> 'a) list" where
  "allPairs [] = []"
| "allPairs (p # ps) = map (Pair p) ps @ allPairs ps"

text \<open>
  Modelled from the spec: one step of the scan of the absent \<^verbatim>\<open>getClosestPair\<close>. The
  best pair so far gives way to a candidate that is strictly closer only, so that of the
  pairs at the least distance the first one in scan order is kept.
\<close>

definition closerPair :: "point \<times> point \<Rightarrow> point \<times> point \<Rightarrow> point \<times> point" where
  "closerPair best candidate =
     (if pairDistance candidate < pairDistance best then candidate else best)"

text \<open>
  Modelled from the spec: the scan of the absent \<^verbatim>\<open>getClosestPair\<close> over a frame of
  points; "no pair" is \<open>None\<close>.
\<close>

definition bruteForceClosestPair :: "point list \<Rightarrow> (point \<times> point) option" where
  "bruteForceClosestPair ps =
     (case allPairs ps of
        [] \<Rightarrow> None
      | c # cs \<Rightarrow> Some (foldl closerPair c cs))"

text \<open>
  Modelled from the spec: the absent \<^verbatim>\<open>getClosestPair\<close> as the selector calls it, on
  the array of the current frame. The caller reads the result as a two-element array of
  points, or as falsy. A slot that holds \<^verbatim>\<open>undefined\<close> is not a point of the contract;
  reading a coordinate of it raises a \<^verbatim>\<open>TypeError\<close>, which any search among two or
  more slots must do.
\<close>

definition getClosestPair :: "point option list \<Rightarrow> error + (point \<times> point) option" where
  "getClosestPair points =
     (if length points < 2 then Inr None
      else case those points of
             None \<Rightarrow> Inl TypeError
           | Some ps \<Rightarrow> Inr (bruteForceClosestPair ps))"

subsection \<open>Distances of the nearest neighbours, frame by frame\<close>

text \<open>
  Reading an array beyond its end gives \<^verbatim>\<open>undefined\<close>. The two writes of the loops are
  always inside the arrays, which \<^verbatim>\<open>new Array(n)\<close> created with the length the loop
  counters run up to.
\<close>

definition nthOrUndefined :: "'a list \<Rightarrow> nat \<Rightarrow> 'a option" where
  "nthOrUndefined xs i = (if i < length xs then Some (xs ! i) else None)"

text \<open>The inner loop: the positions of all drones in one frame, written over the last frame's.\<close>

definition collectFrame ::
  "point list list \<Rightarrow> nat \<Rightarrow> point option list \<Rightarrow> point option list" where
  "collectFrame positionsByDrones frameIndex positionsInCurrentFrame =
     fold (\<lambda>droneIndex frame.
             frame[droneIndex := nthOrUndefined (positionsByDrones ! droneIndex) frameIndex])
       [0..<length positionsByDrones] positionsInCurrentFrame"

definition frameEntry :: "(point \<times> point) option \<Rightarrow> jsval" where
  "frameEntry closestPair =
     (case closestPair of
        Some pr \<Rightarrow> Num (pairDistance pr)
      | None \<Rightarrow> Null)"

text \<open>
  The outer loop over the frame indices; its state is the array of results and the array
  of the current frame, which all iterations share. An exception ends the loop.
\<close>

fun frameLoop ::
  "point list list \<Rightarrow> nat list \<Rightarrow> jsval list \<times> point option list \<Rightarrow>
     error + (jsval list \<times> point option list)" where
  "frameLoop positionsByDrones [] s = Inr s"
| "frameLoop positionsByDrones (frameIndex # rest) (result, positionsInCurrentFrame) =
     (let frame = collectFrame positionsByDrones frameIndex positionsInCurrentFrame in
      case getClosestPair frame of
        Inl e \<Rightarrow> Inl e
      | Inr closestPair \<Rightarrow>
          frameLoop positionsByDrones rest
            (result[frameIndex := frameEntry closestPair], frame))"

definition getNearestNeighborDistancesForFrames_resultFunc ::
  "point list list \<Rightarrow> real list \<Rightarrow> error + jsval list" where
  "getNearestNeighborDistancesForFrames_resultFunc positionsByDrones times' =
     (let numberFrames = length times';
          numberDrones = length positionsByDrones;
          result = replicate numberFrames Undefined;
          positionsInCurrentFrame = replicate numberDrones None
      in case frameLoop positionsByDrones [0..<numberFrames] (result, positionsInCurrentFrame) of
           Inl e \<Rightarrow> Inl e
         | Inr s \<Rightarrow> Inr (fst s))"

definition getNearestNeighborDistancesForFrames :: "real \<Rightarrow> state \<Rightarrow> error + jsval list" where
  "getNearestNeighborDistancesForFrames SAMPLES_PER_SECOND st =
     getNearestNeighborDistancesForFrames_resultFunc
       (getSampledPositionsForDrones SAMPLES_PER_SECOND st)
       (getSampledTimeInstants SAMPLES_PER_SECOND st)"

text \<open>The positions of the players at one instant: the frame of that instant.\<close>

definition frameAtTime :: "player list \<Rightarrow> real \<Rightarrow> point list" where
  "frameAtTime players time = map (\<lambda>player. getPositionAt player time) players"


text \<open>
  The entry of one frame when every drone has a position in it: the distance of the pair
  the scan finds among the positions at that frame index, or \<open>Null\<close>.
\<close>

definition entryAt :: "point list list \<Rightarrow> nat \<Rightarrow> jsval" where
  "entryAt positionsByDrones frameIndex =
     frameEntry (bruteForceClosestPair (map (\<lambda>positions. positions ! frameIndex) positionsByDrones))"

text \<open>
  The distance of the specification, in its words: 3D Euclidean,
  \<^verbatim>\<open>sqrt(dx^2 + dy^2 + dz^2)\<close>.
\<close>

definition euclideanDistance :: "point \<Rightarrow> point \<Rightarrow> real" where
  "euclideanDistance p q =
     sqrt ((coord_x p - coord_x q)\<^sup>2 + (coord_y p - coord_y q)\<^sup>2 + (coord_z p - coord_z q)\<^sup>2)"

subsection \<open>A small show\<close>

text \<open>
  Two drones for half a second: one leaves \<open>(0, 0, 1)\<close> with velocity \<open>(3, 4, 0)\<close>, the
  other hovers at \<open>(0, 0, 6)\<close>. The show file carries a legacy settings object with the
  altitude key only. The table of defaults is an illustration, not the one of the viewer.
\<close>

definition examplePlayers :: "player list" where
  "examplePlayers =
     [\<lparr>getPositionAt = (\<lambda>t. \<lparr>coord_x = 3 * t, coord_y = 4 * t, coord_z = 1\<rparr>),
       getVelocityAt = (\<lambda>t. \<lparr>coord_x = 3, coord_y = 4, coord_z = 0\<rparr>)\<rparr>,
      \<lparr>getPositionAt = (\<lambda>t. \<lparr>coord_x = 0, coord_y = 0, coord_z = 6\<rparr>),
       getVelocityAt = (\<lambda>t. \<lparr>coord_x = 0, coord_y = 0, coord_z = 0\<rparr>)\<rparr>]"

definition exampleState :: state where
  "exampleState =
     \<lparr>show_data_settings_validation = Some [''max_altitude'' \<mapsto> Num 50],
      getShowEnvironmentType = ''outdoor'',
      getShowDuration = 1 / 2,
      getTrajectoryPlayers = examplePlayers,
      validation_selection = []\<rparr>"

definition exampleDefaults :: "string \<rightharpoonup> jsobj" where
  "exampleDefaults =
     [''outdoor'' \<mapsto>
        [''maxAltitude'' \<mapsto> Num 150, ''maxVelocityXY'' \<mapsto> Num 10,
         ''maxVelocityZ'' \<mapsto> Num 2, ''minDistance'' \<mapsto> Num 3]]"

section \<open>The sample grid\<close>

subsection \<open>The grid in closed form\<close>

lemma lodash_range_pos: "0 < n \<Longrightarrow> lodash_range n = map int [0..<nat n]"
  by (simp add: lodash_range_def max_def)


lemma last_map_upt: "0 < k \<Longrightarrow> last (map f [0..<k]) = f (k - 1)"
  by (cases k) (simp_all add: last_map)

lemma real_nat_pred:
  assumes "0 < n"
  shows "real (nat n - 1) = real_of_int n - 1"
proof -
  have "int (nat n - 1) = n - 1" using assms by arith
  then have "real_of_int (int (nat n - 1)) = real_of_int (n - 1)" by (simp only:)
  then show ?thesis by simp
qed

text \<open>
  A positive duration at a positive rate: the uniform samples below the duration, then the
  duration itself. The last uniform sample is always strictly below the duration, so the
  duration is always appended.
\<close>

lemma grid_pos:
  assumes d: "0 < d" and s: "0 < sps"
  shows "getSampledTimeInstants_resultFunc sps d =
           map (\<lambda>i. real i / sps) [0..<nat \<lceil>d * sps\<rceil>] @ [d]"
proof -
  let ?n = "\<lceil>d * sps\<rceil>"
  have "0 < d * sps" using d s by simp
  then have n: "0 < ?n" by simp
  then have k: "0 < nat ?n" by simp
  have r: "map (\<lambda>x. real_of_int x / sps) (lodash_range ?n) = map (\<lambda>i. real i / sps) [0..<nat ?n]"
    by (simp add: lodash_range_pos [OF n] comp_def)
  have "real_of_int ?n - 1 < d * sps" by linarith
  then have "real (nat ?n - 1) < d * sps" using real_nat_pred [OF n] by linarith
  then have "real (nat ?n - 1) / sps < d" using s by (simp add: pos_divide_less_eq)
  then have "last (map (\<lambda>i. real i / sps) [0..<nat ?n]) < d"
    by (simp add: last_map_upt [OF k])
  then show ?thesis
    unfolding getSampledTimeInstants_resultFunc_def Let_def r using k by simp
qed

lemma grid_zero: "getSampledTimeInstants_resultFunc sps 0 = []"
  by (simp add: getSampledTimeInstants_resultFunc_def lodash_range_def)




lemma grid_elem_less:
  assumes s: "0 < sps" and i: "i < nat \<lceil>d * sps\<rceil>"
  shows "real i / sps < d"
proof -
  have "int i < \<lceil>d * sps\<rceil>" using i by simp
  then have "real_of_int (int i) < d * sps" by (simp only: less_ceiling_iff)
  then have "real i < d * sps" by simp
  then show ?thesis using s by (simp add: pos_divide_less_eq)
qed

lemma sorted_grid_prefix:
  assumes s: "0 < sps"
  shows "sorted_wrt (<) (map (\<lambda>i. real i / sps) [0..<k])"
proof -
  have "sorted_wrt (\<lambda>i j. real i / sps < real j / sps) [0..<k]"
    by (rule sorted_wrt_mono_rel [of _ "(<)"]) (use s in \<open>simp_all add: divide_strict_right_mono\<close>)
  then show ?thesis by (simp add: sorted_wrt_map)
qed

lemma exampleGrid: "getSampledTimeInstants 4 exampleState = [0, 1 / 4, 1 / 2]"
  by (simp add: getSampledTimeInstants_def getSampledTimeInstants_resultFunc_def
      lodash_range_def exampleState_def upt_rec)

subsection \<open>The grid of a show\<close>

text \<open>
  C2. For every duration \<open>\<ge> 0\<close> (at a positive sampling rate) the sample grid is strictly
  increasing, each of its elements lies between 0 and the duration, a grid that is not
  empty starts with 0 and ends with the duration, its length is
  \<open>ceil(duration * SAMPLES_PER_SECOND)\<close> or that plus one, and the duration 0 gives the
  empty grid.
\<close>

theorem getSampledTimeInstants_grid:
  assumes d: "0 \<le> getShowDuration st" and s: "0 < sps"
  shows "sorted_wrt (<) (getSampledTimeInstants sps st)
       \<and> (\<forall>t \<in> set (getSampledTimeInstants sps st). 0 \<le> t \<and> t \<le> getShowDuration st)
       \<and> (getSampledTimeInstants sps st \<noteq> [] \<longrightarrow>
            hd (getSampledTimeInstants sps st) = 0
          \<and> last (getSampledTimeInstants sps st) = getShowDuration st)
       \<and> (length (getSampledTimeInstants sps st) = nat \<lceil>getShowDuration st * sps\<rceil>
          \<or> length (getSampledTimeInstants sps st) = nat \<lceil>getShowDuration st * sps\<rceil> + 1)
       \<and> (getShowDuration st = 0 \<longrightarrow> getSampledTimeInstants sps st = [])"
proof (cases "getShowDuration st = 0")
  case True
  then show ?thesis by (simp add: getSampledTimeInstants_def grid_zero)
next
  case False
  let ?d = "getShowDuration st"
  let ?k = "nat \<lceil>?d * sps\<rceil>"
  let ?pre = "map (\<lambda>i. real i / sps) [0..<?k]"
  from False d have pos: "0 < ?d" by simp
  have g: "getSampledTimeInstants sps st = ?pre @ [?d]"
    by (simp add: getSampledTimeInstants_def grid_pos [OF pos s])
  have "0 < ?d * sps" using pos s by simp
  then have k: "0 < ?k" by simp
  have below: "\<forall>t \<in> set ?pre. 0 \<le> t \<and> t < ?d"
    using s by (auto simp: grid_elem_less)
  have inc: "sorted_wrt (<) (?pre @ [?d])"
    using below by (simp add: sorted_wrt_append sorted_grid_prefix [OF s])
  have bounds: "\<forall>t \<in> set (?pre @ [?d]). 0 \<le> t \<and> t \<le> ?d"
    using below pos by auto
  have "?pre \<noteq> []" using k by simp
  then have "hd (?pre @ [?d]) = hd ?pre" by simp
  also have "\<dots> = 0" using k by (simp add: hd_map upt_conv_Cons)
  finally have first: "hd (?pre @ [?d]) = 0" .
  show ?thesis
    unfolding g using inc bounds first False by simp
qed

theorem getSampledTimeInstants_grid_witness:
  "0 \<le> getShowDuration exampleState \<and> (0::real) < 4
   \<and> getSampledTimeInstants 4 exampleState = [0, 1 / 4, 1 / 2]
   \<and> sorted_wrt (<) (getSampledTimeInstants 4 exampleState)
   \<and> hd (getSampledTimeInstants 4 exampleState) = 0
   \<and> last (getSampledTimeInstants 4 exampleState) = getShowDuration exampleState
   \<and> length (getSampledTimeInstants 4 exampleState) = nat \<lceil>getShowDuration exampleState * 4\<rceil> + 1"
proof -
  have d: "0 \<le> getShowDuration exampleState" by (simp add: exampleState_def)
  have s: "(0::real) < 4" by simp
  have n: "nat \<lceil>getShowDuration exampleState * 4\<rceil> = 2" by (simp add: exampleState_def)
  from getSampledTimeInstants_grid [OF d s] d
  show ?thesis unfolding n exampleGrid by simp
qed




section \<open>The closest pair\<close>

subsection \<open>The pairwise scan finds a pair at the least distance\<close>

lemma allPairs_empty_iff: "allPairs ps = [] \<longleftrightarrow> length ps < 2"
proof (induction ps)
  case Nil
  then show ?case by simp
next
  case (Cons p ps)
  then show ?case by (cases ps) simp_all
qed

lemma set_allPairs:
  "set (allPairs ps) = {(ps ! i, ps ! j) | i j. i < j \<and> j < length ps}"
proof (induction ps)
  case Nil
  then show ?case by simp
next
  case (Cons p ps)
  have "{((p # ps) ! i, (p # ps) ! j) | i j. i < j \<and> j < length (p # ps)} =
        Pair p ` set ps \<union> {(ps ! i, ps ! j) | i j. i < j \<and> j < length ps}"
    (is "?L = ?A \<union> ?B")
  proof (rule set_eqI, rule iffI)
    fix q assume "q \<in> ?L"
    then obtain i j where q: "q = ((p # ps) ! i, (p # ps) ! j)"
      and ij: "i < j" "j < length (p # ps)"
      by blast
    from ij obtain j' where j': "j = Suc j'" by (cases j) simp_all
    show "q \<in> ?A \<union> ?B"
    proof (cases i)
      case 0
      then show ?thesis using q ij j' by simp
    next
      case (Suc i')
      then have "q = (ps ! i', ps ! j')" "i' < j'" "j' < length ps" using q ij j' by simp_all
      then show ?thesis by blast
    qed
  next
    fix q assume "q \<in> ?A \<union> ?B"
    then show "q \<in> ?L"
    proof
      assume "q \<in> ?A"
      then obtain j where "j < length ps" "q = (p, ps ! j)" by (auto simp: in_set_conv_nth)
      then have "q = ((p # ps) ! 0, (p # ps) ! Suc j)" "0 < Suc j" "Suc j < length (p # ps)"
        by simp_all
      then show ?thesis by blast
    next
      assume "q \<in> ?B"
      then obtain i j where "q = (ps ! i, ps ! j)" "i < j" "j < length ps" by blast
      then have "q = ((p # ps) ! Suc i, (p # ps) ! Suc j)" "Suc i < Suc j"
        "Suc j < length (p # ps)"
        by simp_all
      then show ?thesis by blast
    qed
  qed
  then show ?case using Cons.IH by simp
qed

lemma foldl_closerPair_in: "foldl closerPair c cs \<in> set (c # cs)"
  by (induction cs arbitrary: c) (auto simp: closerPair_def)

lemma foldl_closerPair_le_start: "pairDistance (foldl closerPair c cs) \<le> pairDistance c"
proof (induction cs arbitrary: c)
  case Nil
  then show ?case by simp
next
  case (Cons a cs)
  have "pairDistance (foldl closerPair (closerPair c a) cs) \<le> pairDistance (closerPair c a)"
    by (rule Cons.IH)
  also have "\<dots> \<le> pairDistance c" by (simp add: closerPair_def)
  finally show ?case by simp
qed

lemma foldl_closerPair_least:
  "q \<in> set (c # cs) \<Longrightarrow> pairDistance (foldl closerPair c cs) \<le> pairDistance q"
proof (induction cs arbitrary: c)
  case Nil
  then show ?case by simp
next
  case (Cons a cs)
  have step: "pairDistance (closerPair c a) \<le> pairDistance c"
    "pairDistance (closerPair c a) \<le> pairDistance a"
    by (simp_all add: closerPair_def)
  from Cons.prems consider "q = c" | "q = a" | "q \<in> set cs" by auto
  then show ?case
  proof cases
    case 1
    then show ?thesis
      using foldl_closerPair_le_start [of "closerPair c a" cs] step by simp
  next
    case 2
    then show ?thesis
      using foldl_closerPair_le_start [of "closerPair c a" cs] step by simp
  next
    case 3
    then show ?thesis using Cons.IH [of "closerPair c a"] by simp
  qed
qed

lemma bruteForceClosestPair_None_iff: "bruteForceClosestPair ps = None \<longleftrightarrow> length ps < 2"
proof (cases "allPairs ps")
  case Nil
  then show ?thesis using allPairs_empty_iff [of ps] by (simp add: bruteForceClosestPair_def)
next
  case (Cons c cs)
  then show ?thesis using allPairs_empty_iff [of ps] by (simp add: bruteForceClosestPair_def)
qed

lemma bruteForceClosestPair_Some:
  assumes "2 \<le> length ps"
  shows "\<exists>pr. bruteForceClosestPair ps = Some pr \<and> pr \<in> set (allPairs ps)
            \<and> (\<forall>q \<in> set (allPairs ps). pairDistance pr \<le> pairDistance q)"
proof -
  from assms have "allPairs ps \<noteq> []" by (simp add: allPairs_empty_iff)
  then obtain c cs where a: "allPairs ps = c # cs" by (cases "allPairs ps") simp_all
  have "bruteForceClosestPair ps = Some (foldl closerPair c cs)"
    by (simp add: bruteForceClosestPair_def a)
  moreover have "foldl closerPair c cs \<in> set (allPairs ps)"
    unfolding a by (rule foldl_closerPair_in)
  moreover have "\<forall>q \<in> set (allPairs ps). pairDistance (foldl closerPair c cs) \<le> pairDistance q"
    unfolding a using foldl_closerPair_least by blast
  ultimately show ?thesis by blast
qed

lemma pairDistance_eq: "pairDistance (p, q) = euclideanDistance p q"
  by (simp add: pairDistance_def euclideanDistance_def Math_hypot_def)

lemma those_map_Some: "those (map (\<lambda>x. Some (h x)) xs) = Some (map h xs)"
  by (induction xs) simp_all

text \<open>On a frame in which every slot holds a point the search returns, and returns the scan's pair.\<close>

lemma getClosestPair_defined:
  "getClosestPair (map (\<lambda>x. Some (h x)) xs) = Inr (bruteForceClosestPair (map h xs))"
proof (cases "length xs < 2")
  case True
  then have "bruteForceClosestPair (map h xs) = None"
    by (simp add: bruteForceClosestPair_None_iff)
  then show ?thesis using True by (simp add: getClosestPair_def)
next
  case False
  then show ?thesis by (simp add: getClosestPair_def those_map_Some)
qed

subsection \<open>The two loops\<close>

text \<open>A loop that assigns the slots \<open>0, \<dots>, k - 1\<close> of an array in turn.\<close>

lemma fold_update_upt:
  "k \<le> length frame \<Longrightarrow>
   fold (\<lambda>i fr. fr[i := g i]) [0..<k] frame = map g [0..<k] @ drop k frame"
proof (induction k)
  case 0
  then show ?case by simp
next
  case (Suc k)
  then have k: "k < length frame" by simp
  have "(map g [0..<k] @ drop k frame)[k := g k] = map g [0..<k] @ (drop k frame)[0 := g k]"
    by (simp add: list_update_append)
  also have "(drop k frame)[0 := g k] = g k # drop (Suc k) frame"
    using k by (simp add: Cons_nth_drop_Suc [symmetric])
  finally show ?case using Suc by simp
qed

lemma collectFrame_eq:
  assumes "length frame = length pbd"
  shows "collectFrame pbd f frame = map (\<lambda>d. nthOrUndefined (pbd ! d) f) [0..<length pbd]"
  unfolding collectFrame_def using fold_update_upt [of "length pbd" frame] assms by simp

lemma collectFrame_defined:
  assumes len: "length frame = length pbd" and ok: "\<forall>ps \<in> set pbd. f < length ps"
  shows "collectFrame pbd f frame = map (\<lambda>ps. Some (ps ! f)) pbd"
proof -
  have "map (\<lambda>d. nthOrUndefined (pbd ! d) f) [0..<length pbd] =
        map (\<lambda>d. Some (pbd ! d ! f)) [0..<length pbd]"
    using ok by (simp add: nthOrUndefined_def)
  also have "\<dots> = map (\<lambda>ps. Some (ps ! f)) (map (\<lambda>d. pbd ! d) [0..<length pbd])"
    by (simp add: comp_def)
  also have "map (\<lambda>d. pbd ! d) [0..<length pbd] = pbd" by (rule map_nth)
  finally show ?thesis by (simp add: collectFrame_eq [OF len])
qed

text \<open>
  The outer loop, when every drone has a position at every frame index it visits: no
  exception, and each visited index receives the entry of its frame. What the shared
  array of the current frame held before an iteration does not matter.
\<close>

lemma frameLoop_defined:
  assumes "length frame = length pbd" and "\<forall>f \<in> set fs. \<forall>ps \<in> set pbd. f < length ps"
  shows "\<exists>frame'. frameLoop pbd fs (result, frame) =
            Inr (fold (\<lambda>f r. r[f := entryAt pbd f]) fs result, frame')"
  using assms
proof (induction fs arbitrary: result frame)
  case Nil
  then show ?case by simp
next
  case (Cons f fs)
  have c: "collectFrame pbd f frame = map (\<lambda>ps. Some (ps ! f)) pbd"
    using Cons.prems by (simp add: collectFrame_defined)
  have l: "length (map (\<lambda>ps. Some (ps ! f)) pbd) = length pbd" by simp
  from Cons.IH [OF l, of "result[f := entryAt pbd f]"] Cons.prems(2)
  show ?case
    by (simp add: c getClosestPair_defined entryAt_def)
qed

lemma getNearestNeighborDistancesForFrames_resultFunc_defined:
  assumes "\<forall>ps \<in> set pbd. length ts \<le> length ps"
  shows "getNearestNeighborDistancesForFrames_resultFunc pbd ts =
           Inr (map (entryAt pbd) [0..<length ts])"
proof -
  have ok: "\<forall>f \<in> set [0..<length ts]. \<forall>ps \<in> set pbd. f < length ps"
    using assms by fastforce
  obtain frame' where
    "frameLoop pbd [0..<length ts] (replicate (length ts) Undefined, replicate (length pbd) None) =
       Inr (fold (\<lambda>f r. r[f := entryAt pbd f]) [0..<length ts] (replicate (length ts) Undefined),
            frame')"
    using frameLoop_defined [OF _ ok, of "replicate (length pbd) None"
        "replicate (length ts) Undefined"]
    by auto
  moreover have
    "fold (\<lambda>f r. r[f := entryAt pbd f]) [0..<length ts] (replicate (length ts) Undefined)
       = map (entryAt pbd) [0..<length ts]"
    using fold_update_upt [of "length ts" "replicate (length ts) Undefined" "entryAt pbd"]
    by simp
  ultimately show ?thesis
    by (simp add: getNearestNeighborDistancesForFrames_resultFunc_def)
qed

lemma length_frameAtTime: "length (frameAtTime players t) = length players"
  by (simp add: frameAtTime_def)

text \<open>
  The selector on a store: the sampled positions give every drone a position at every
  instant of the grid, so the selector returns one entry for each instant, computed from
  the frame of that instant.
\<close>

lemma getNearestNeighborDistancesForFrames_eq:
  "getNearestNeighborDistancesForFrames sps st =
     Inr (map (\<lambda>t. frameEntry (bruteForceClosestPair (frameAtTime (getTrajectoryPlayers st) t)))
            (getSampledTimeInstants sps st))"
proof -
  let ?ts = "getSampledTimeInstants sps st"
  let ?pbd = "getSampledPositionsForDrones sps st"
  let ?entry = "\<lambda>t. frameEntry (bruteForceClosestPair (frameAtTime (getTrajectoryPlayers st) t))"
  have len: "\<forall>ps \<in> set ?pbd. length ?ts \<le> length ps"
    by (auto simp: getSampledPositionsForDrones_def getSampledPositionsForDrones_resultFunc_def)
  have e: "entryAt ?pbd f = ?entry (?ts ! f)" if "f < length ?ts" for f
    using that
    by (simp add: entryAt_def frameAtTime_def getSampledPositionsForDrones_def
        getSampledPositionsForDrones_resultFunc_def comp_def)
  have "map (entryAt ?pbd) [0..<length ?ts] = map (\<lambda>f. ?entry (?ts ! f)) [0..<length ?ts]"
    using e by simp
  also have "\<dots> = map ?entry (map (\<lambda>f. ?ts ! f) [0..<length ?ts])"
    by (simp add: comp_def)
  also have "map (\<lambda>f. ?ts ! f) [0..<length ?ts] = ?ts" by (rule map_nth)
  finally show ?thesis
    by (simp add: getNearestNeighborDistancesForFrames_def
        getNearestNeighborDistancesForFrames_resultFunc_defined [OF len])
qed

subsection \<open>The distance of a frame\<close>

text \<open>
  C1. In every frame of the grid with at least two drone positions, the entry of
  \<^verbatim>\<open>getNearestNeighborDistancesForFrames\<close> is a number, the 3D Euclidean distance
  \<^verbatim>\<open>sqrt(dx^2 + dy^2 + dz^2)\<close> of two of the frame's positions \<open>i < j\<close>, and no pair
  \<open>i < j\<close> of the frame's positions is closer: it is the exact minimum over all pairs.
\<close>

theorem nearest_neighbor_distance_is_minimum:
  assumes two: "2 \<le> length (getTrajectoryPlayers st)"
    and f: "f < length (getSampledTimeInstants sps st)"
  shows "\<exists>ds d. getNearestNeighborDistancesForFrames sps st = Inr ds
           \<and> ds ! f = Num d
           \<and> (\<exists>i j. i < j \<and> j < length (getTrajectoryPlayers st)
                \<and> d = euclideanDistance
                        (frameAtTime (getTrajectoryPlayers st) (getSampledTimeInstants sps st ! f) ! i)
                        (frameAtTime (getTrajectoryPlayers st) (getSampledTimeInstants sps st ! f) ! j))
           \<and> (\<forall>i j. i < j \<and> j < length (getTrajectoryPlayers st) \<longrightarrow>
                d \<le> euclideanDistance
                        (frameAtTime (getTrajectoryPlayers st) (getSampledTimeInstants sps st ! f) ! i)
                        (frameAtTime (getTrajectoryPlayers st) (getSampledTimeInstants sps st ! f) ! j))"
proof -
  let ?fr = "frameAtTime (getTrajectoryPlayers st) (getSampledTimeInstants sps st ! f)"
  let ?ds = "map (\<lambda>t. frameEntry (bruteForceClosestPair (frameAtTime (getTrajectoryPlayers st) t)))
               (getSampledTimeInstants sps st)"
  have len: "length ?fr = length (getTrajectoryPlayers st)" by (rule length_frameAtTime)
  with two have "2 \<le> length ?fr" by simp
  then obtain pr where pr: "bruteForceClosestPair ?fr = Some pr"
    and mem: "pr \<in> set (allPairs ?fr)"
    and least: "\<And>q. q \<in> set (allPairs ?fr) \<Longrightarrow> pairDistance pr \<le> pairDistance q"
    using bruteForceClosestPair_Some [of ?fr] by blast
  from mem obtain i j where ij: "i < j" "j < length ?fr" and pr_eq: "pr = (?fr ! i, ?fr ! j)"
    unfolding set_allPairs by blast
  have a: "getNearestNeighborDistancesForFrames sps st = Inr ?ds"
    by (rule getNearestNeighborDistancesForFrames_eq)
  have b: "?ds ! f = Num (pairDistance pr)" using f by (simp add: pr frameEntry_def)
  have c: "pairDistance pr = euclideanDistance (?fr ! i) (?fr ! j)"
    by (simp add: pr_eq pairDistance_eq)
  have d: "pairDistance pr \<le> euclideanDistance (?fr ! i') (?fr ! j')"
    if "i' < j'" "j' < length (getTrajectoryPlayers st)" for i' j'
  proof -
    have "(?fr ! i', ?fr ! j') \<in> set (allPairs ?fr)"
      unfolding set_allPairs using that len by auto
    from least [OF this] show ?thesis by (simp add: pairDistance_eq)
  qed
  from ij len have e: "i < j \<and> j < length (getTrajectoryPlayers st)" by simp
  show ?thesis
    using a b c d e by blast
qed

theorem nearest_neighbor_distance_is_minimum_witness:
  "2 \<le> length (getTrajectoryPlayers exampleState)
   \<and> 0 < length (getSampledTimeInstants 4 exampleState)
   \<and> (\<exists>ds. getNearestNeighborDistancesForFrames 4 exampleState = Inr ds \<and> ds ! 0 = Num 5)"
proof -
  have two: "2 \<le> length (getTrajectoryPlayers exampleState)"
    by (simp add: exampleState_def examplePlayers_def)
  have f: "0 < length (getSampledTimeInstants 4 exampleState)"
    by (simp add: exampleGrid)
  from nearest_neighbor_distance_is_minimum [OF two f]
  obtain ds d i j where ds: "getNearestNeighborDistancesForFrames 4 exampleState = Inr ds"
    and d: "ds ! 0 = Num d"
    and ij: "i < j" "j < length (getTrajectoryPlayers exampleState)"
    and eq: "d = euclideanDistance
                  (frameAtTime (getTrajectoryPlayers exampleState)
                     (getSampledTimeInstants 4 exampleState ! 0) ! i)
                  (frameAtTime (getTrajectoryPlayers exampleState)
                     (getSampledTimeInstants 4 exampleState ! 0) ! j)"
    by blast
  from ij have "j = 1" "i = 0" by (simp_all add: exampleState_def examplePlayers_def)
  with eq have "d = 5"
    unfolding exampleGrid
    by (simp add: exampleState_def examplePlayers_def frameAtTime_def
        euclideanDistance_def real_sqrt_unique)
  with two f ds d show ?thesis by simp
qed

text \<open>
  C4. The selector raises no error on any store, an empty or single-drone show included,
  and returns one entry for each frame of the grid; the entry of a frame is null exactly
  when the frame holds fewer than two drone positions.
\<close>

theorem nearest_neighbor_null_iff:
  "\<exists>ds. getNearestNeighborDistancesForFrames sps st = Inr ds
      \<and> length ds = length (getSampledTimeInstants sps st)
      \<and> (\<forall>f < length (getSampledTimeInstants sps st).
            ds ! f = Null \<longleftrightarrow>
              length (frameAtTime (getTrajectoryPlayers st) (getSampledTimeInstants sps st ! f)) < 2)"
proof -
  have "frameEntry (bruteForceClosestPair fr) = Null \<longleftrightarrow> length fr < 2" for fr
  proof (cases "bruteForceClosestPair fr")
    case None
    then show ?thesis using bruteForceClosestPair_None_iff [of fr] by (simp add: frameEntry_def)
  next
    case (Some pr)
    then show ?thesis using bruteForceClosestPair_None_iff [of fr] by (simp add: frameEntry_def)
  qed
  then show ?thesis by (simp add: getNearestNeighborDistancesForFrames_eq)
qed

theorem nearest_neighbor_null_iff_witness:
  "(0::nat) < length (getSampledTimeInstants 4 exampleState)
   \<and> (\<exists>ds. getNearestNeighborDistancesForFrames 4
               (exampleState\<lparr>getTrajectoryPlayers := [hd examplePlayers]\<rparr>) = Inr ds
          \<and> length ds = 3 \<and> ds ! 0 = Null)
   \<and> (\<exists>ds. getNearestNeighborDistancesForFrames 4 exampleState = Inr ds
          \<and> length ds = 3 \<and> ds ! 0 \<noteq> Null)"
proof -
  let ?st = "exampleState\<lparr>getTrajectoryPlayers := [hd examplePlayers]\<rparr>"
  have g: "getSampledTimeInstants 4 ?st = getSampledTimeInstants 4 exampleState"
    by (simp add: getSampledTimeInstants_def)
  have f: "(0::nat) < length (getSampledTimeInstants 4 exampleState)"
    by (simp add: exampleGrid)
  have n: "length (getSampledTimeInstants 4 exampleState) = 3"
    by (simp add: exampleGrid)
  have p: "length (getTrajectoryPlayers exampleState) = 2"
    by (simp add: exampleState_def examplePlayers_def)
  from nearest_neighbor_null_iff [of 4 ?st]
  obtain ds where ds: "getNearestNeighborDistancesForFrames 4 ?st = Inr ds"
    "length ds = length (getSampledTimeInstants 4 ?st)"
    "\<forall>f < length (getSampledTimeInstants 4 ?st).
       ds ! f = Null \<longleftrightarrow>
         length (frameAtTime (getTrajectoryPlayers ?st) (getSampledTimeInstants 4 ?st ! f)) < 2"
    by blast
  from ds(3) f have "ds ! 0 = Null" unfolding g by (simp add: length_frameAtTime)
  with ds(1,2) have one:
    "\<exists>ds. getNearestNeighborDistancesForFrames 4 ?st = Inr ds \<and> length ds = 3 \<and> ds ! 0 = Null"
    unfolding g n by blast
  from nearest_neighbor_null_iff [of 4 exampleState]
  obtain es where es: "getNearestNeighborDistancesForFrames 4 exampleState = Inr es"
    "length es = length (getSampledTimeInstants 4 exampleState)"
    "\<forall>f < length (getSampledTimeInstants 4 exampleState).
       es ! f = Null \<longleftrightarrow>
         length (frameAtTime (getTrajectoryPlayers exampleState)
                   (getSampledTimeInstants 4 exampleState ! f)) < 2"
    by blast
  from es(3) f have "es ! 0 \<noteq> Null" by (simp add: length_frameAtTime p)
  with es(1,2) have two:
    "\<exists>ds. getNearestNeighborDistancesForFrames 4 exampleState = Inr ds \<and> length ds = 3
       \<and> ds ! 0 \<noteq> Null"
    unfolding n by blast
  from f one two show ?thesis by blast
qed

section \<open>The sequences derived from the samples\<close>

text \<open>
  C8. For every sampled velocity the entry of the horizontal speeds is the Euclidean norm
  \<open>sqrt (x\<^sup>2 + y\<^sup>2)\<close> of its \<open>x\<close> and \<open>y\<close> components and the entry of the vertical speeds
  is its \<open>z\<close> component, sign included; the velocity \<open>(3, 4, 0)\<close> gives the horizontal
  speed 5 and the vertical speed 0.
\<close>

theorem horizontal_and_vertical_speed:
  "(\<forall>d < length velocitiesByDrones. \<forall>i < length (velocitiesByDrones ! d).
      getSampledHorizontalVelocitiesForDrones_resultFunc velocitiesByDrones ! d ! i =
        sqrt ((coord_x (velocitiesByDrones ! d ! i))\<^sup>2 + (coord_y (velocitiesByDrones ! d ! i))\<^sup>2)
    \<and> getSampledVerticalVelocitiesForDrones_resultFunc velocitiesByDrones ! d ! i =
        coord_z (velocitiesByDrones ! d ! i))
   \<and> getSampledHorizontalVelocitiesForDrones_resultFunc
        [[\<lparr>coord_x = 3, coord_y = 4, coord_z = 0\<rparr>]] = [[5]]
   \<and> getSampledVerticalVelocitiesForDrones_resultFunc
        [[\<lparr>coord_x = 3, coord_y = 4, coord_z = 0\<rparr>]] = [[0]]"
  by (simp add: getSampledHorizontalVelocitiesForDrones_resultFunc_def
      getSampledVerticalVelocitiesForDrones_resultFunc_def Math_hypot_def real_sqrt_unique)

theorem horizontal_and_vertical_speed_witness:
  "(0::nat) < length (getSampledVelocitiesForDrones 4 exampleState)
   \<and> (2::nat) < length (getSampledVelocitiesForDrones 4 exampleState ! 0)
   \<and> getSampledHorizontalVelocitiesForDrones 4 exampleState ! 0 ! 2 = 5
   \<and> getSampledVerticalVelocitiesForDrones 4 exampleState ! 0 ! 2 = 0"
proof -
  have vs: "getSampledVelocitiesForDrones 4 exampleState =
      [replicate 3 \<lparr>coord_x = 3, coord_y = 4, coord_z = 0\<rparr>,
       replicate 3 \<lparr>coord_x = 0, coord_y = 0, coord_z = 0\<rparr>]"
    unfolding getSampledVelocitiesForDrones_def exampleGrid
    by (simp add: getSampledVelocitiesForDrones_resultFunc_def exampleState_def examplePlayers_def
        numeral_3_eq_3)
  from horizontal_and_vertical_speed [of "getSampledVelocitiesForDrones 4 exampleState"]
  show ?thesis
    unfolding getSampledHorizontalVelocitiesForDrones_def getSampledVerticalVelocitiesForDrones_def vs
    by (simp add: real_sqrt_unique numeral_3_eq_3)
qed

text \<open>
  C9. For every set of players and every duration, each drone's sequence of altitudes, of
  horizontal speeds and of vertical speeds, and the sequence of closest-pair distances,
  is as long as the sample grid, and its entry \<open>i\<close> comes from the evaluation at the
  instant \<open>i\<close> of the grid: of that drone's position or velocity there, or of the frame of
  all positions there.
\<close>

theorem sequences_aligned_with_grid:
  "length (getSampledAltitudesForDrones sps st) = length (getTrajectoryPlayers st)
   \<and> length (getSampledHorizontalVelocitiesForDrones sps st) = length (getTrajectoryPlayers st)
   \<and> length (getSampledVerticalVelocitiesForDrones sps st) = length (getTrajectoryPlayers st)
   \<and> (\<forall>d < length (getTrajectoryPlayers st).
         length (getSampledAltitudesForDrones sps st ! d) = length (getSampledTimeInstants sps st)
       \<and> length (getSampledHorizontalVelocitiesForDrones sps st ! d) =
           length (getSampledTimeInstants sps st)
       \<and> length (getSampledVerticalVelocitiesForDrones sps st ! d) =
           length (getSampledTimeInstants sps st)
       \<and> (\<forall>i < length (getSampledTimeInstants sps st).
             getSampledAltitudesForDrones sps st ! d ! i =
               coord_z (getPositionAt (getTrajectoryPlayers st ! d) (getSampledTimeInstants sps st ! i))
           \<and> getSampledHorizontalVelocitiesForDrones sps st ! d ! i =
               Math_hypot
                 [coord_x (getVelocityAt (getTrajectoryPlayers st ! d) (getSampledTimeInstants sps st ! i)),
                  coord_y (getVelocityAt (getTrajectoryPlayers st ! d) (getSampledTimeInstants sps st ! i))]
           \<and> getSampledVerticalVelocitiesForDrones sps st ! d ! i =
               coord_z (getVelocityAt (getTrajectoryPlayers st ! d) (getSampledTimeInstants sps st ! i))))
   \<and> (\<exists>ds. getNearestNeighborDistancesForFrames sps st = Inr ds
         \<and> length ds = length (getSampledTimeInstants sps st)
         \<and> (\<forall>i < length (getSampledTimeInstants sps st).
               \<exists>closestPair.
                 getClosestPair
                   (map Some (frameAtTime (getTrajectoryPlayers st) (getSampledTimeInstants sps st ! i)))
                   = Inr closestPair
               \<and> ds ! i = frameEntry closestPair))"
proof -
  note defs = getSampledAltitudesForDrones_def getSampledAltitudesForDrones_resultFunc_def
    getSampledHorizontalVelocitiesForDrones_def getSampledHorizontalVelocitiesForDrones_resultFunc_def
    getSampledVerticalVelocitiesForDrones_def getSampledVerticalVelocitiesForDrones_resultFunc_def
    getSampledPositionsForDrones_def getSampledPositionsForDrones_resultFunc_def
    getSampledVelocitiesForDrones_def getSampledVelocitiesForDrones_resultFunc_def
  have a: "length (getSampledAltitudesForDrones sps st) = length (getTrajectoryPlayers st)"
    and b: "length (getSampledHorizontalVelocitiesForDrones sps st) = length (getTrajectoryPlayers st)"
    and c: "length (getSampledVerticalVelocitiesForDrones sps st) = length (getTrajectoryPlayers st)"
    by (simp_all add: defs)
  have d: "\<forall>d < length (getTrajectoryPlayers st).
         length (getSampledAltitudesForDrones sps st ! d) = length (getSampledTimeInstants sps st)
       \<and> length (getSampledHorizontalVelocitiesForDrones sps st ! d) =
           length (getSampledTimeInstants sps st)
       \<and> length (getSampledVerticalVelocitiesForDrones sps st ! d) =
           length (getSampledTimeInstants sps st)
       \<and> (\<forall>i < length (getSampledTimeInstants sps st).
             getSampledAltitudesForDrones sps st ! d ! i =
               coord_z (getPositionAt (getTrajectoryPlayers st ! d) (getSampledTimeInstants sps st ! i))
           \<and> getSampledHorizontalVelocitiesForDrones sps st ! d ! i =
               Math_hypot
                 [coord_x (getVelocityAt (getTrajectoryPlayers st ! d) (getSampledTimeInstants sps st ! i)),
                  coord_y (getVelocityAt (getTrajectoryPlayers st ! d) (getSampledTimeInstants sps st ! i))]
           \<and> getSampledVerticalVelocitiesForDrones sps st ! d ! i =
               coord_z (getVelocityAt (getTrajectoryPlayers st ! d) (getSampledTimeInstants sps st ! i)))"
    by (simp add: defs)
  have e: "\<exists>ds. getNearestNeighborDistancesForFrames sps st = Inr ds
         \<and> length ds = length (getSampledTimeInstants sps st)
         \<and> (\<forall>i < length (getSampledTimeInstants sps st).
               \<exists>closestPair.
                 getClosestPair
                   (map Some (frameAtTime (getTrajectoryPlayers st) (getSampledTimeInstants sps st ! i)))
                   = Inr closestPair
               \<and> ds ! i = frameEntry closestPair)"
    using getClosestPair_defined [of "\<lambda>p. p"]
    by (simp add: getNearestNeighborDistancesForFrames_eq)
  from a b c d e show ?thesis by blast
qed

theorem sequences_aligned_with_grid_witness:
  "(1::nat) < length (getTrajectoryPlayers exampleState)
   \<and> (2::nat) < length (getSampledTimeInstants 4 exampleState)
   \<and> length (getSampledAltitudesForDrones 4 exampleState ! 1) = 3
   \<and> getSampledAltitudesForDrones 4 exampleState ! 1 ! 2 = 6
   \<and> getSampledVerticalVelocitiesForDrones 4 exampleState ! 0 ! 2 = 0
   \<and> (\<exists>ds. getNearestNeighborDistancesForFrames 4 exampleState = Inr ds \<and> length ds = 3)"
proof -
  have d0: "(0::nat) < length (getTrajectoryPlayers exampleState)"
    and d1: "(1::nat) < length (getTrajectoryPlayers exampleState)"
    by (simp_all add: exampleState_def examplePlayers_def)
  have i2: "(2::nat) < length (getSampledTimeInstants 4 exampleState)"
    by (simp add: exampleGrid)
  note t = sequences_aligned_with_grid [of 4 exampleState]
  from t d1 have len: "length (getSampledAltitudesForDrones 4 exampleState ! 1) =
      length (getSampledTimeInstants 4 exampleState)"
    by blast
  from t d1 i2 have alt: "getSampledAltitudesForDrones 4 exampleState ! 1 ! 2 =
      coord_z (getPositionAt (getTrajectoryPlayers exampleState ! 1)
                 (getSampledTimeInstants 4 exampleState ! 2))"
    by blast
  from t d0 i2 have vv: "getSampledVerticalVelocitiesForDrones 4 exampleState ! 0 ! 2 =
      coord_z (getVelocityAt (getTrajectoryPlayers exampleState ! 0)
                 (getSampledTimeInstants 4 exampleState ! 2))"
    by blast
  from t obtain ds where ds: "getNearestNeighborDistancesForFrames 4 exampleState = Inr ds"
    "length ds = length (getSampledTimeInstants 4 exampleState)"
    by blast
  have p: "getTrajectoryPlayers exampleState = examplePlayers" by (simp add: exampleState_def)
  show ?thesis
    using d1 i2 len alt vv ds unfolding exampleGrid p by (simp add: examplePlayers_def)
qed

section \<open>Threshold resolution\<close>

text \<open>
  C5. With the legacy input
  \<^verbatim>\<open>{max_altitude: 50, max_velocity_xy: 5, max_velocity_z: 3, min_distance: 2}\<close> and the
  environment type "outdoor", the resolved settings are the outdoor defaults with all four
  canonical fields overridden: maxAltitude 50, maxVelocityXY 5, maxVelocityZ 3,
  minDistance 2, whatever the table of defaults holds.
\<close>

theorem getValidationSettings_legacy_example:
  "getValidationSettings D
     (st\<lparr>show_data_settings_validation := Some legacyExample,
         getShowEnvironmentType := ''outdoor''\<rparr>) =
   (defaultSettingsFor D ''outdoor'')
     (''maxAltitude'' \<mapsto> Num 50, ''maxVelocityXY'' \<mapsto> Num 5,
      ''maxVelocityZ'' \<mapsto> Num 3, ''minDistance'' \<mapsto> Num 2)
   \<and> getAltitudeWarningThreshold D
       (st\<lparr>show_data_settings_validation := Some legacyExample,
           getShowEnvironmentType := ''outdoor''\<rparr>) = Num 50
   \<and> getHorizontalVelocityThreshold D
       (st\<lparr>show_data_settings_validation := Some legacyExample,
           getShowEnvironmentType := ''outdoor''\<rparr>) = Num 5
   \<and> getVerticalVelocityThreshold D
       (st\<lparr>show_data_settings_validation := Some legacyExample,
           getShowEnvironmentType := ''outdoor''\<rparr>) = Num 3
   \<and> getProximityWarningThreshold D
       (st\<lparr>show_data_settings_validation := Some legacyExample,
           getShowEnvironmentType := ''outdoor''\<rparr>) = Num 2"
  by (simp add: getValidationSettings_def getValidationSettings_resultFunc_def
      getAltitudeWarningThreshold_def getHorizontalVelocityThreshold_def
      getVerticalVelocityThreshold_def getProximityWarningThreshold_def
      legacyExample_def getProp_def)

text \<open>
  C6. With the canonical input \<^verbatim>\<open>{maxAltitude: 80}\<close> only maxAltitude is overridden:
  maxVelocityXY, maxVelocityZ and minDistance keep the values of the defaults of the
  environment, that is of the entry the table of defaults has for the environment type,
  or of the entry for "outdoor" when it has none for the type (and are undefined when it
  has neither).
\<close>

theorem getValidationSettings_canonical_partial:
  "(D (getShowEnvironmentType st) = Some s \<or>
    D (getShowEnvironmentType st) = None \<and> D ''outdoor'' = Some s \<longrightarrow>
      getValidationSettings D
        (st\<lparr>show_data_settings_validation := Some [''maxAltitude'' \<mapsto> Num 80]\<rparr>) =
        s(''maxAltitude'' \<mapsto> Num 80)
    \<and> getAltitudeWarningThreshold D
        (st\<lparr>show_data_settings_validation := Some [''maxAltitude'' \<mapsto> Num 80]\<rparr>) = Num 80
    \<and> getHorizontalVelocityThreshold D
        (st\<lparr>show_data_settings_validation := Some [''maxAltitude'' \<mapsto> Num 80]\<rparr>) =
        getProp s ''maxVelocityXY''
    \<and> getVerticalVelocityThreshold D
        (st\<lparr>show_data_settings_validation := Some [''maxAltitude'' \<mapsto> Num 80]\<rparr>) =
        getProp s ''maxVelocityZ''
    \<and> getProximityWarningThreshold D
        (st\<lparr>show_data_settings_validation := Some [''maxAltitude'' \<mapsto> Num 80]\<rparr>) =
        getProp s ''minDistance'')
   \<and> (D (getShowEnvironmentType st) = None \<and> D ''outdoor'' = None \<longrightarrow>
      getValidationSettings D
        (st\<lparr>show_data_settings_validation := Some [''maxAltitude'' \<mapsto> Num 80]\<rparr>) =
        [''maxAltitude'' \<mapsto> Num 80]
    \<and> getHorizontalVelocityThreshold D
        (st\<lparr>show_data_settings_validation := Some [''maxAltitude'' \<mapsto> Num 80]\<rparr>) = Undefined
    \<and> getVerticalVelocityThreshold D
        (st\<lparr>show_data_settings_validation := Some [''maxAltitude'' \<mapsto> Num 80]\<rparr>) = Undefined
    \<and> getProximityWarningThreshold D
        (st\<lparr>show_data_settings_validation := Some [''maxAltitude'' \<mapsto> Num 80]\<rparr>) = Undefined)"
  by (auto simp: getValidationSettings_def getValidationSettings_resultFunc_def
      defaultSettingsFor_def getAltitudeWarningThreshold_def getHorizontalVelocityThreshold_def
      getVerticalVelocityThreshold_def getProximityWarningThreshold_def getProp_def)

theorem getValidationSettings_canonical_partial_witness:
  "exampleDefaults (getShowEnvironmentType exampleState) =
     Some [''maxAltitude'' \<mapsto> Num 150, ''maxVelocityXY'' \<mapsto> Num 10,
           ''maxVelocityZ'' \<mapsto> Num 2, ''minDistance'' \<mapsto> Num 3]
   \<and> getAltitudeWarningThreshold exampleDefaults
        (exampleState\<lparr>show_data_settings_validation := Some [''maxAltitude'' \<mapsto> Num 80]\<rparr>) = Num 80
   \<and> getHorizontalVelocityThreshold exampleDefaults
        (exampleState\<lparr>show_data_settings_validation := Some [''maxAltitude'' \<mapsto> Num 80]\<rparr>) = Num 10
   \<and> getVerticalVelocityThreshold exampleDefaults
        (exampleState\<lparr>show_data_settings_validation := Some [''maxAltitude'' \<mapsto> Num 80]\<rparr>) = Num 2
   \<and> getProximityWarningThreshold exampleDefaults
        (exampleState\<lparr>show_data_settings_validation := Some [''maxAltitude'' \<mapsto> Num 80]\<rparr>) = Num 3
   \<and> exampleDefaults (getShowEnvironmentType (exampleState\<lparr>getShowEnvironmentType := ''indoor''\<rparr>))
       = None
   \<and> getHorizontalVelocityThreshold exampleDefaults
        (exampleState\<lparr>getShowEnvironmentType := ''indoor'',
           show_data_settings_validation := Some [''maxAltitude'' \<mapsto> Num 80]\<rparr>) = Num 10"
proof -
  let ?s = "[''maxAltitude'' \<mapsto> Num 150, ''maxVelocityXY'' \<mapsto> Num 10,
             ''maxVelocityZ'' \<mapsto> Num 2, ''minDistance'' \<mapsto> Num 3]"
  have out: "exampleDefaults ''outdoor'' = Some ?s" by (simp add: exampleDefaults_def)
  have ind: "exampleDefaults ''indoor'' = None" by (simp add: exampleDefaults_def)
  have t1: "getShowEnvironmentType exampleState = ''outdoor''" by (simp add: exampleState_def)
  have t2: "getShowEnvironmentType (exampleState\<lparr>getShowEnvironmentType := ''indoor''\<rparr>) = ''indoor''"
    by simp
  from getValidationSettings_canonical_partial [of exampleDefaults exampleState ?s]
    getValidationSettings_canonical_partial
      [of exampleDefaults "exampleState\<lparr>getShowEnvironmentType := ''indoor''\<rparr>" ?s]
  show ?thesis
    unfolding t1 t2 using out ind by (simp add: getProp_def)
qed

text \<open>
  C7. Whenever the raw settings hold the legacy key \<^verbatim>\<open>max_altitude\<close> (its value is not
  undefined), all four canonical fields are overwritten with what the four legacy keys
  read as; a legacy key that is absent among \<^verbatim>\<open>max_velocity_xy\<close>,
  \<^verbatim>\<open>max_velocity_z\<close>, \<^verbatim>\<open>min_distance\<close> leaves its canonical field undefined in
  place of the default of the environment.
\<close>

theorem getValidationSettings_legacy_overwrites_all:
  assumes v: "show_data_settings_validation st = Some v"
    and alt: "getProp v ''max_altitude'' \<noteq> Undefined"
  shows "getValidationSettings D st =
           (defaultSettingsFor D (getShowEnvironmentType st))
             (''maxAltitude'' \<mapsto> getProp v ''max_altitude'',
              ''maxVelocityXY'' \<mapsto> getProp v ''max_velocity_xy'',
              ''maxVelocityZ'' \<mapsto> getProp v ''max_velocity_z'',
              ''minDistance'' \<mapsto> getProp v ''min_distance'')
       \<and> (v ''max_velocity_xy'' = None \<longrightarrow>
            getValidationSettings D st ''maxVelocityXY'' = Some Undefined
          \<and> getHorizontalVelocityThreshold D st = Undefined)
       \<and> (v ''max_velocity_z'' = None \<longrightarrow>
            getValidationSettings D st ''maxVelocityZ'' = Some Undefined
          \<and> getVerticalVelocityThreshold D st = Undefined)
       \<and> (v ''min_distance'' = None \<longrightarrow>
            getValidationSettings D st ''minDistance'' = Some Undefined
          \<and> getProximityWarningThreshold D st = Undefined)"
  using alt
  by (simp add: getValidationSettings_def getValidationSettings_resultFunc_def v
      getHorizontalVelocityThreshold_def getVerticalVelocityThreshold_def
      getProximityWarningThreshold_def getProp_def)

theorem getValidationSettings_legacy_overwrites_all_witness:
  "show_data_settings_validation exampleState = Some [''max_altitude'' \<mapsto> Num 50]
   \<and> getProp [''max_altitude'' \<mapsto> Num 50] ''max_altitude'' \<noteq> Undefined
   \<and> [''max_altitude'' \<mapsto> Num 50] ''max_velocity_xy'' = None
   \<and> getProp (defaultSettingsFor exampleDefaults (getShowEnvironmentType exampleState))
        ''maxVelocityXY'' = Num 10
   \<and> getValidationSettings exampleDefaults exampleState ''maxVelocityXY'' = Some Undefined
   \<and> getHorizontalVelocityThreshold exampleDefaults exampleState = Undefined
   \<and> getVerticalVelocityThreshold exampleDefaults exampleState = Undefined
   \<and> getProximityWarningThreshold exampleDefaults exampleState = Undefined"
proof -
  have v: "show_data_settings_validation exampleState = Some [''max_altitude'' \<mapsto> Num 50]"
    by (simp add: exampleState_def)
  have alt: "getProp [''max_altitude'' \<mapsto> Num 50] ''max_altitude'' \<noteq> Undefined"
    by (simp add: getProp_def)
  have d: "getProp (defaultSettingsFor exampleDefaults (getShowEnvironmentType exampleState))
             ''maxVelocityXY'' = Num 10"
    by (simp add: exampleState_def exampleDefaults_def defaultSettingsFor_def getProp_def)
  from getValidationSettings_legacy_overwrites_all [OF v alt, of exampleDefaults] v alt d
  show ?thesis by (simp add: getProp_def)
qed

end
